theory Spec2Isabelle
  imports Main
begin

section \<open>The descriptor file as it is stored\<close>

text \<open>
  The repository consists of one Python file, \<^verbatim>\<open>src/airflow/dags/training_pipeline.py\<close>.
  Its 54 lines are kept here character for character, one string per line.  Lines 22 and
  29 are written as two pieces only to keep the two characters that follow
  \<^verbatim>\<open>training\<close> and \<^verbatim>\<open>sync_artifact_to_s3_bucket\<close> apart in this file; the
  value is the line of the source.
\<close>

definition source_text :: "string list" where
  \<open>source_text =
   [''# from asyncio import tasks'',
    ''# import json'',
    ''# from textwrap import dedent'',
    ''# import pendulum'',
    ''# import os'',
    ''# from airflow import DAG'',
    ''# from airflow.operators.python import PythonOperator'',
    ''# from dotenv import load_dotenv'',
    ''# load_dotenv()'',
    [],
    ''# with DAG('',
    ''#     'network_training_pipelinr','',
    ''#     default_args={'retries': 2},'',
    ''#     description='Network security pipeline for training and syncing to S3','',
    ''#     schedule_interval="@weekly",'',
    ''#     start_date=pendulum.datetime(2024,12,24, tz="UTC"),'',
    ''#     catchup=False,'',
    ''#     tags=['mlops'],'',
    ''# ) as dag:'',
    [],
    ''    '',
    ''#     def training('' @ ''**kwargs):'',
    ''        '',
    ''#         from networksecurity.pipeline.training_pipeline import TrainingPipeline'',
    ''#         training_obj=TrainingPipeline()'',
    ''#         training_obj.run_pipeline()'',
    ''        '',
    ''    '',
    ''#     def sync_artifact_to_s3_bucket('' @ ''**kwargs):'',
    ''#         bucket_name = "networksecurity3"'',
    ''#         os.system(f"aws s3 sync /app/Artifacts s3://{bucket_name}/artifact")'',
    ''#         os.system(f"aws s3 sync /app/final_model s3://{bucket_name}/final_model")'',
    [],
    ''#     training_pipeline  = PythonOperator('',
    ''#             task_id="train_pipeline",'',
    ''#             python_callable=training'',
    [],
    ''#     )'',
    [],
    ''#     sync_data_to_s3 = PythonOperator('',
    ''#             task_id="sync_data_to_s3",'',
    ''#             python_callable=sync_artifact_to_s3_bucket'',
    [],
    ''#     )'',
    [],
    ''#     training_pipeline >> sync_data_to_s3'',
    [], [], [], [], [], [], [], []]\<close>

subsection \<open>Which lines carry code\<close>

text \<open>
  Python's tokenizer ignores a line that holds only spaces, tabs, form feeds and possibly
  a comment; a comment starts at \<^verbatim>\<open>#\<close> and runs to the end of the line.  The lines
  that remain are the ones the parser sees.
\<close>

definition is_py_space :: "char \<Rightarrow> bool" where
  "is_py_space c = (c = CHR '' '' \<or> c = CHR 0x09 \<or> c = CHR 0x0C)"

definition is_ignored_line :: "string \<Rightarrow> bool" where
  "is_ignored_line l =
     (case dropWhile is_py_space l of [] \<Rightarrow> True | c # _ \<Rightarrow> c = CHR ''#'')"

definition logical_lines :: "string list \<Rightarrow> string list" where
  "logical_lines src = filter (\<lambda>l. \<not> is_ignored_line l) src"

text \<open>
  All comment lines of the file start with \<^verbatim>\<open>#\<close> and one space.  \<open>uncomment\<close>
  drops these two characters; a line that does not start with them is left as it is.
  It is used only to say what text the comments hold.
\<close>

definition uncomment :: "string \<Rightarrow> string" where
  "uncomment l =
     (case l of
        c # d # rest \<Rightarrow> (if c = CHR ''#'' \<and> d = CHR '' '' then rest else l)
      | _ \<Rightarrow> l)"

subsection \<open>Loading a module\<close>

text \<open>
  Loading runs the statements of the module one after the other on the state of the
  process and stops at the first one that raises.  \<open>run_body\<close> is that loop.  The meaning
  of a line of code is a parameter \<open>ex\<close> of \<open>load_module\<close>: it may be any function from
  the line and the state to an error or a new state, and the state may be of any type.
\<close>

fun run_body :: "('s \<Rightarrow> 'e + 's) list \<Rightarrow> 's \<Rightarrow> 'e + 's" where
  "run_body [] st = Inr st"
| "run_body (stmt # rest) st =
     (case stmt st of Inl e \<Rightarrow> Inl e | Inr st' \<Rightarrow> run_body rest st')"

definition load_module :: "(string \<Rightarrow> 's \<Rightarrow> 'e + 's) \<Rightarrow> string list \<Rightarrow> 's \<Rightarrow> 'e + 's" where
  "load_module ex src st = run_body (map ex (logical_lines src)) st"

section \<open>The descriptor written in the file\<close>

text \<open>
  Read without the comment sign, lines 1 to 46 are a workflow descriptor for an external
  orchestrator.  This section translates that text statement by statement.  None of it
  runs when the stored file is loaded; the translation is what the file's text declares.
\<close>

subsection \<open>Data\<close>

datatype exn = ModuleNotFoundError string | Exception string

text \<open>The two functions the descriptor defines and hands to its tasks.\<close>

datatype callable = Fn_training | Fn_sync_artifact_to_s3_bucket

record datetime =
  year :: int
  month :: int
  day :: int
  tz :: string

record task =
  task_id :: string
  python_callable :: callable
  retries :: nat

record dag =
  dag_id :: string
  default_args :: "(string \<times> nat) list"
  description :: string
  schedule_interval :: string
  start_date :: datetime
  catchup :: bool
  tags :: "string list"
  tasks :: "task list"
  edges :: "(string \<times> string) list"

text \<open>
  The state a module load acts on: the names bound by statements of the module, the calls of
  \<^verbatim>\<open>load_dotenv\<close> and the workflows handed over, in the order they happened, and the
  workflows the orchestrator finds in the module.
\<close>

datatype effect = Dotenv_loaded | Dag_registered string

record pystate =
  names :: "string list"
  effects :: "effect list"
  dags :: "dag list"

definition fresh :: pystate where
  "fresh = \<lparr>names = [], effects = [], dags = []\<rparr>"

subsection \<open>Statements of the module\<close>

text \<open>
  \<^verbatim>\<open>import m\<close> and \<^verbatim>\<open>from m import n\<close> raise when module \<open>m\<close> cannot be found and
  bind a name otherwise.  Which modules can be found is the parameter \<open>installed\<close>.
\<close>

definition import_module :: "(string \<Rightarrow> bool) \<Rightarrow> string \<Rightarrow> string \<Rightarrow> pystate \<Rightarrow> exn + pystate" where
  "import_module installed m n st =
     (if installed m then Inr (st\<lparr>names := names st @ [n]\<rparr>)
      else Inl (ModuleNotFoundError m))"

definition load_dotenv :: "pystate \<Rightarrow> exn + pystate" where
  "load_dotenv st = Inr (st\<lparr>effects := effects st @ [Dotenv_loaded]\<rparr>)"

definition DAG ::
  "string \<Rightarrow> (string \<times> nat) list \<Rightarrow> string \<Rightarrow> string \<Rightarrow> datetime \<Rightarrow> bool \<Rightarrow> string list \<Rightarrow> dag" where
  "DAG name args descr sched start cu tgs =
     \<lparr>dag_id = name, default_args = args, description = descr, schedule_interval = sched,
      start_date = start, catchup = cu, tags = tgs, tasks = [], edges = []\<rparr>"

text \<open>
  An operator created inside the \<^verbatim>\<open>with\<close> block joins the workflow of the block, and
  an argument it is not given is taken from the workflow's \<^verbatim>\<open>default_args\<close>; a retry
  count given nowhere is 0.
\<close>

definition PythonOperator :: "string \<Rightarrow> callable \<Rightarrow> dag \<Rightarrow> task \<times> dag" where
  "PythonOperator tid f d =
     (let t = \<lparr>task_id = tid, python_callable = f,
                retries = (case map_of (default_args d) ''retries'' of Some n \<Rightarrow> n | None \<Rightarrow> 0)\<rparr>
      in (t, d\<lparr>tasks := tasks d @ [t]\<rparr>))"

text \<open>\<^verbatim>\<open>a >> b\<close> makes \<open>b\<close> a downstream task of \<open>a\<close>.\<close>

definition rshift :: "task \<Rightarrow> task \<Rightarrow> dag \<Rightarrow> dag" where
  "rshift a b d = d\<lparr>edges := edges d @ [(task_id a, task_id b)]\<rparr>"

text \<open>
  Lines 11 to 46: the workflow the \<^verbatim>\<open>with\<close> block builds.  The two
  \<^verbatim>\<open>def\<close> statements of the block (lines 22 and 29) only define the functions that
  \<open>Fn_training\<close> and \<open>Fn_sync_artifact_to_s3_bucket\<close> name; their bodies do not run
  here.
\<close>

definition workflow :: dag where
  "workflow =
     (let dag = DAG ''network_training_pipelinr'' [(''retries'', 2)]
                  ''Network security pipeline for training and syncing to S3''
                  ''@weekly'' \<lparr>year = 2024, month = 12, day = 24, tz = ''UTC''\<rparr>
                  False [''mlops''];
          (training_pipeline, dag) = PythonOperator ''train_pipeline'' Fn_training dag;
          (sync_data_to_s3, dag) =
             PythonOperator ''sync_data_to_s3'' Fn_sync_artifact_to_s3_bucket dag
      in rshift training_pipeline sync_data_to_s3 dag)"

text \<open>
  The block binds five names (the workflow, the two functions, the two operators) and
  leaves the workflow in the module, where the orchestrator finds it.
\<close>

definition with_DAG :: "pystate \<Rightarrow> exn + pystate" where
  "with_DAG st =
     Inr (st\<lparr>names := names st @ [''dag'', ''training'', ''sync_artifact_to_s3_bucket'',
                                   ''training_pipeline'', ''sync_data_to_s3''],
             effects := effects st @ [Dag_registered (dag_id workflow)],
             dags := dags st @ [workflow]\<rparr>)"

text \<open>Lines 1 to 46 as a module body.\<close>

definition descriptor :: "(string \<Rightarrow> bool) \<Rightarrow> pystate \<Rightarrow> exn + pystate" where
  "descriptor installed =
     run_body
      [import_module installed ''asyncio'' ''tasks'',
       import_module installed ''json'' ''json'',
       import_module installed ''textwrap'' ''dedent'',
       import_module installed ''pendulum'' ''pendulum'',
       import_module installed ''os'' ''os'',
       import_module installed ''airflow'' ''DAG'',
       import_module installed ''airflow.operators.python'' ''PythonOperator'',
       import_module installed ''dotenv'' ''load_dotenv'',
       load_dotenv,
       with_DAG]"

text \<open>The modules the eight import statements at the top of the text name.\<close>

definition top_level_modules :: "string list" where
  "top_level_modules =
     [''asyncio'', ''json'', ''textwrap'', ''pendulum'', ''os'', ''airflow'',
      ''airflow.operators.python'', ''dotenv'']"

subsection \<open>The two task functions\<close>

text \<open>
  A task function runs later, in a process of the orchestrator.  \<open>world\<close> is everything
  outside the descriptor that a call can read or change; \<open>issued\<close> lists the command
  lines this descriptor's code has handed to \<^verbatim>\<open>os.system\<close>, oldest first.
\<close>

record 'w proc =
  world :: 'w
  issued :: "string list"

datatype outcome = Returned | Raises exn

text \<open>
  \<^verbatim>\<open>os.system\<close> runs a command line in a shell and returns its exit status; a status
  other than 0 raises nothing.  The shell is the parameter \<open>sh\<close>.
\<close>

definition os_system :: "(string \<Rightarrow> 'w \<Rightarrow> int \<times> 'w) \<Rightarrow> string \<Rightarrow> 'w proc \<Rightarrow> int \<times> 'w proc" where
  "os_system sh cmd p =
     (let (status, w) = sh cmd (world p)
      in (status, \<lparr>world = w, issued = issued p @ [cmd]\<rparr>))"

text \<open>Lines 29 to 32.\<close>

definition sync_artifact_to_s3_bucket :: "(string \<Rightarrow> 'w \<Rightarrow> int \<times> 'w) \<Rightarrow> 'w proc \<Rightarrow> outcome \<times> 'w proc" where
  "sync_artifact_to_s3_bucket sh p =
     (let bucket_name = ''networksecurity3'';
          (_, p) = os_system sh (''aws s3 sync /app/Artifacts s3://'' @ bucket_name @ ''/artifact'') p;
          (_, p) = os_system sh (''aws s3 sync /app/final_model s3://'' @ bucket_name @ ''/final_model'') p
      in (Returned, p))"

text \<open>
  Lines 22 to 26.  The import stands inside the function, so it runs at each call.
  \<open>TrainingPipeline\<close> (the constructor) and \<open>run_pipeline\<close> (the method) belong to the
  imported module and are parameters; each may raise and may change the world.  A module
  that is found is taken to provide the class.
\<close>

definition training_module :: string where
  "training_module = ''networksecurity.pipeline.training_pipeline''"

definition training ::
  "(string \<Rightarrow> bool) \<Rightarrow> ('w \<Rightarrow> (exn + 'o) \<times> 'w) \<Rightarrow> ('o \<Rightarrow> 'w \<Rightarrow> outcome \<times> 'w) \<Rightarrow> 'w proc \<Rightarrow> outcome \<times> 'w proc" where
  "training installed TrainingPipeline run_pipeline p =
     (if \<not> installed training_module then (Raises (ModuleNotFoundError training_module), p)
      else (case TrainingPipeline (world p) of
              (Inl e, w) \<Rightarrow> (Raises e, p\<lparr>world := w\<rparr>)
            | (Inr training_obj, w) \<Rightarrow>
                (case run_pipeline training_obj w of (r, w') \<Rightarrow> (r, p\<lparr>world := w'\<rparr>))))"

text \<open>What is outside the descriptor, and the call of a task's function in it.\<close>

record ('w, 'o) env =
  modules :: "string \<Rightarrow> bool"
  shell :: "string \<Rightarrow> 'w \<Rightarrow> int \<times> 'w"
  pipeline_new :: "'w \<Rightarrow> (exn + 'o) \<times> 'w"
  pipeline_run :: "'o \<Rightarrow> 'w \<Rightarrow> outcome \<times> 'w"

definition call :: "('w, 'o) env \<Rightarrow> callable \<Rightarrow> 'w proc \<Rightarrow> outcome \<times> 'w proc" where
  "call E f =
     (case f of
        Fn_training \<Rightarrow> training (modules E) (pipeline_new E) (pipeline_run E)
      | Fn_sync_artifact_to_s3_bucket \<Rightarrow> sync_artifact_to_s3_bucket (shell E))"

section \<open>The orchestrator\<close>

text \<open>
  The orchestrator that runs a registered workflow is an external system; the repository
  holds none of its code.  The two rules below are what the specification says of it.
  They are stated for any workflow and any task function.
\<close>

datatype task_state = Pending | Running | Success | Failed

text \<open>
  Modelled from the spec: the orchestrator's retry wrapper, which is not in the
  repository ("caught only by the orchestrator's generic retry wrapper (retry \<le> 2, then
  mark task failed)", "2 automatic retries per task on failure").  A task function that
  raises is run again while retries are left; the task succeeds with the first call that
  returns and fails when a call raises with no retry left.  The result is the final
  state, the number of retries used and the process as the last call left it.
\<close>

fun attempts :: "nat \<Rightarrow> ('p \<Rightarrow> outcome \<times> 'p) \<Rightarrow> nat \<Rightarrow> 'p \<Rightarrow> task_state \<times> nat \<times> 'p" where
  "attempts 0 f used p =
     (case f p of (Returned, p') \<Rightarrow> (Success, used, p') | (Raises e, p') \<Rightarrow> (Failed, used, p'))"
| "attempts (Suc left) f used p =
     (case f p of
        (Returned, p') \<Rightarrow> (Success, used, p')
      | (Raises e, p') \<Rightarrow> attempts left f (Suc used) p')"

text \<open>
  Modelled from the spec: how the orchestrator runs one task, which is not in the
  repository.  The task's function is called under the retry wrapper with the task's
  own retry count, starting with no retry used.
\<close>

definition run_task :: "('w, 'o) env \<Rightarrow> task \<Rightarrow> 'w proc \<Rightarrow> task_state \<times> nat \<times> 'w proc" where
  "run_task E t p = attempts (retries t) (call E (python_callable t)) 0 p"

text \<open>
  Modelled from the spec: the orchestrator's dependency-graph executor, which is not in
  the repository ("a single precedence edge, training \<rightarrow> sync, enforced by the external
  orchestrator's dependency graph", "must not begin execution before ... completes
  successfully").  A run of a workflow is a sequence of events.  A task of the workflow
  may begin once, when every task upstream of it has succeeded; a running task ends in
  success or in failure.  \<open>run_events\<close> replays a sequence from a state and gives
  \<open>None\<close> when an event is not allowed where it stands.
\<close>

datatype event = Begin string | Succeed string | Fail string

definition upstream :: "dag \<Rightarrow> string \<Rightarrow> string list" where
  "upstream d t = map fst (filter (\<lambda>e. snd e = t) (edges d))"

text \<open>
  Modelled from the spec: when the orchestrator lets an event happen.  The guard of
  \<open>Begin\<close> is the dependency rule: the task belongs to the workflow, has not begun
  before, and every task upstream of it has succeeded.
\<close>

fun fire :: "dag \<Rightarrow> (string \<Rightarrow> task_state) \<Rightarrow> event \<Rightarrow> (string \<Rightarrow> task_state) option" where
  "fire d s (Begin t) =
     (if t \<in> set (map task_id (tasks d)) \<and> s t = Pending
         \<and> list_all (\<lambda>u. s u = Success) (upstream d t)
      then Some (s(t := Running)) else None)"
| "fire d s (Succeed t) = (if s t = Running then Some (s(t := Success)) else None)"
| "fire d s (Fail t) = (if s t = Running then Some (s(t := Failed)) else None)"

text \<open>Modelled from the spec: a sequence of events, replayed one by one.\<close>

fun run_events :: "dag \<Rightarrow> (string \<Rightarrow> task_state) \<Rightarrow> event list \<Rightarrow> (string \<Rightarrow> task_state) option" where
  "run_events d s [] = Some s"
| "run_events d s (e # es) =
     (case fire d s e of None \<Rightarrow> None | Some s' \<Rightarrow> run_events d s' es)"

definition all_pending :: "string \<Rightarrow> task_state" where
  "all_pending t = Pending"

text \<open>
  Modelled from the spec: a valid execution starts with every task pending and consists
  of allowed events only.
\<close>

definition valid_execution :: "dag \<Rightarrow> event list \<Rightarrow> bool" where
  "valid_execution d evs = (run_events d all_pending evs \<noteq> None)"

text \<open>
  The invariant behind the ordering proofs: along every edge, a downstream task that has
  left \<open>Pending\<close> has an upstream task that succeeded.
\<close>

definition started_ok :: "dag \<Rightarrow> (string \<Rightarrow> task_state) \<Rightarrow> bool" where
  "started_ok d s = (\<forall>(u, v) \<in> set (edges d). s v \<noteq> Pending \<longrightarrow> s u = Success)"

section \<open>Observations and concrete surroundings\<close>

text \<open>
  Two observations of a \<open>pystate\<close>, and closed inputs on which the theorems below are
  evaluated.  \<open>not_read\<close> gives a line of
  code no meaning and reports it; it stands for the interpreter where a statement needs
  a fixed one.  \<open>all_but m\<close> finds every module except \<open>m\<close>.
\<close>

definition not_read :: "string \<Rightarrow> pystate \<Rightarrow> exn + pystate" where
  "not_read l st = Inl (Exception l)"

definition all_but :: "string \<Rightarrow> string \<Rightarrow> bool" where
  "all_but m x = (x \<noteq> m)"

text \<open>The identifiers of the tasks of all workflows found in the module.\<close>

definition registered_task_ids :: "pystate \<Rightarrow> string list" where
  "registered_task_ids st = concat (map (\<lambda>d. map task_id (tasks d)) (dags st))"


text \<open>
  A world that is a counter of calls.  \<open>flaky_run\<close> raises on the calls that find the
  counter below 2 and returns from then on; \<open>failing_shell\<close> ends every command with
  exit status 1.
\<close>

definition trivial_new :: "nat \<Rightarrow> (exn + unit) \<times> nat" where
  "trivial_new w = (Inr (), w)"

definition flaky_run :: "unit \<Rightarrow> nat \<Rightarrow> outcome \<times> nat" where
  "flaky_run obj w = (if w < 2 then Raises (Exception ''training failed'') else Returned, Suc w)"

definition failing_shell :: "string \<Rightarrow> nat \<Rightarrow> int \<times> nat" where
  "failing_shell cmd w = (1, Suc w)"

definition flaky_env :: "(nat, unit) env" where
  "flaky_env =
     \<lparr>modules = all_but [], shell = failing_shell, pipeline_new = trivial_new,
      pipeline_run = flaky_run\<rparr>"

definition start_proc :: "nat proc" where
  "start_proc = \<lparr>world = 0, issued = []\<rparr>"

text \<open>The same surroundings with the training-pipeline module missing.\<close>

definition bare_env :: "(nat, unit) env" where
  "bare_env = flaky_env\<lparr>modules := all_but training_module\<rparr>"

section \<open>Properties of the stored file\<close>

lemma source_text_length: "length source_text = 54"
  by (simp add: source_text_def)

lemma source_text_ignored: "list_all is_ignored_line source_text"
  by (simp add: source_text_def is_ignored_line_def is_py_space_def)

lemma filter_none: "list_all P xs \<Longrightarrow> filter (\<lambda>x. \<not> P x) xs = []"
  by (induction xs) auto

lemma source_text_no_code: "logical_lines source_text = []"
  unfolding logical_lines_def by (rule filter_none [OF source_text_ignored])

lemma load_source_text: "load_module ex source_text st = Inr st"
  by (simp add: load_module_def source_text_no_code)

text \<open>
  The loader is not idle by construction: a line that is not a comment reaches the
  interpreter.
\<close>

lemma load_code_line: "load_module ex [''load_dotenv()''] st = ex ''load_dotenv()'' st"
  by (simp add: load_module_def logical_lines_def is_ignored_line_def is_py_space_def
      split: sum.splits)

text \<open>
  Without the comment signs, 35 of the 54 lines carry code; among them are the call of
  \<^verbatim>\<open>load_dotenv\<close> (line 9) and the edge between the two operators (line 46).
\<close>

lemma text_behind_comments:
  "length (logical_lines (map uncomment source_text)) = 35
   \<and> map uncomment source_text ! 8 = ''load_dotenv()''
   \<and> map uncomment source_text ! 45 = ''    training_pipeline >> sync_data_to_s3''"
  by (simp add: source_text_def uncomment_def logical_lines_def is_ignored_line_def
      is_py_space_def)

section \<open>Properties of the descriptor text\<close>

lemma workflow_value:
  "workflow =
     \<lparr>dag_id = ''network_training_pipelinr'', default_args = [(''retries'', 2)],
      description = ''Network security pipeline for training and syncing to S3'',
      schedule_interval = ''@weekly'',
      start_date = \<lparr>year = 2024, month = 12, day = 24, tz = ''UTC''\<rparr>,
      catchup = False, tags = [''mlops''],
      tasks = [\<lparr>task_id = ''train_pipeline'', python_callable = Fn_training, retries = 2\<rparr>,
               \<lparr>task_id = ''sync_data_to_s3'',
                python_callable = Fn_sync_artifact_to_s3_bucket, retries = 2\<rparr>],
      edges = [(''train_pipeline'', ''sync_data_to_s3'')]\<rparr>"
  by (simp add: workflow_def DAG_def PythonOperator_def rshift_def Let_def)

lemma workflow_task_ids:
  "map task_id (tasks workflow) = [''train_pipeline'', ''sync_data_to_s3'']"
  by (simp add: workflow_value)

lemma workflow_edges: "edges workflow = [(''train_pipeline'', ''sync_data_to_s3'')]"
  by (simp add: workflow_value)

lemma workflow_acyclic: "acyclic (set (edges workflow))"
proof -
  have "acyclic ({} :: (string \<times> string) set)"
    by (simp add: acyclic_def)
  then show ?thesis
    by (simp add: workflow_edges acyclic_insert)
qed

text \<open>The schedule the text declares: weekly, from 24 December 2024 UTC, no catch-up.\<close>

lemma workflow_schedule:
  "schedule_interval workflow = ''@weekly''
   \<and> start_date workflow = \<lparr>year = 2024, month = 12, day = 24, tz = ''UTC''\<rparr>
   \<and> \<not> catchup workflow"
  by (simp add: workflow_value)

lemma find_train_task:
  "find (\<lambda>t. task_id t = ''train_pipeline'') (tasks workflow) = Some t \<Longrightarrow>
     t = \<lparr>task_id = ''train_pipeline'', python_callable = Fn_training, retries = 2\<rparr>"
  by (simp add: workflow_value)

lemma find_sync_task:
  "find (\<lambda>t. task_id t = ''sync_data_to_s3'') (tasks workflow) = Some t \<Longrightarrow>
     t = \<lparr>task_id = ''sync_data_to_s3'',
          python_callable = Fn_sync_artifact_to_s3_bucket, retries = 2\<rparr>"
  by (simp add: workflow_value)

text \<open>
  Evaluating the text fails at the first top-level import whose module is missing and
  otherwise binds thirteen names, calls \<^verbatim>\<open>load_dotenv\<close> and leaves the workflow.
\<close>

lemma descriptor_result:
  "descriptor installed st =
     (case find (\<lambda>m. \<not> installed m) top_level_modules of
        Some m \<Rightarrow> Inl (ModuleNotFoundError m)
      | None \<Rightarrow>
          Inr (st\<lparr>names := names st @
                     [''tasks'', ''json'', ''dedent'', ''pendulum'', ''os'', ''DAG'',
                      ''PythonOperator'', ''load_dotenv'', ''dag'', ''training'',
                      ''sync_artifact_to_s3_bucket'', ''training_pipeline'',
                      ''sync_data_to_s3''],
                  effects := effects st @
                     [Dotenv_loaded, Dag_registered ''network_training_pipelinr''],
                  dags := dags st @ [workflow]\<rparr>))"
  by (simp add: descriptor_def top_level_modules_def import_module_def load_dotenv_def
      with_DAG_def workflow_value)

lemma descriptor_ok:
  assumes "list_all installed top_level_modules"
  shows "descriptor installed st =
     Inr (st\<lparr>names := names st @
                [''tasks'', ''json'', ''dedent'', ''pendulum'', ''os'', ''DAG'',
                 ''PythonOperator'', ''load_dotenv'', ''dag'', ''training'',
                 ''sync_artifact_to_s3_bucket'', ''training_pipeline'',
                 ''sync_data_to_s3''],
             effects := effects st @
                [Dotenv_loaded, Dag_registered ''network_training_pipelinr''],
             dags := dags st @ [workflow]\<rparr>)"
proof -
  from assms have "find (\<lambda>m. \<not> installed m) top_level_modules = None"
    by (simp add: find_None_iff list_all_iff)
  then show ?thesis by (simp add: descriptor_result)
qed

lemma missing_top_level_module_fails:
  "find (\<lambda>m. \<not> installed m) top_level_modules = Some m \<Longrightarrow>
     descriptor installed st = Inl (ModuleNotFoundError m)"
  by (simp add: descriptor_result)

text \<open>The sync function in one equation, for any shell.\<close>

lemma sync_result:
  "sync_artifact_to_s3_bucket sh p =
     (Returned,
      \<lparr>world = snd (sh ''aws s3 sync /app/final_model s3://networksecurity3/final_model''
                 (snd (sh ''aws s3 sync /app/Artifacts s3://networksecurity3/artifact''
                   (world p)))),
       issued = issued p @
          [''aws s3 sync /app/Artifacts s3://networksecurity3/artifact'',
           ''aws s3 sync /app/final_model s3://networksecurity3/final_model'']\<rparr>)"
  by (simp add: sync_artifact_to_s3_bucket_def os_system_def Let_def split_beta)

section \<open>Properties of the orchestrator's rules\<close>

subsection \<open>Retries\<close>

lemma attempts_returns:
  "f p = (Returned, q) \<Longrightarrow> attempts n f used p = (Success, used, q)"
  by (cases n) simp_all

lemma attempts_two_raises:
  assumes "f p0 = (Raises e1, p1)" and "f p1 = (Raises e2, p2)" and "f p2 = (r, p3)"
  shows "attempts 2 f 0 p0 = ((case r of Returned \<Rightarrow> Success | Raises e \<Rightarrow> Failed), 2, p3)"
proof -
  have "attempts 2 f 0 p0 = attempts (Suc 0) f (Suc 0) p1"
    using assms(1) by (simp add: numeral_2_eq_2)
  also have "\<dots> = attempts 0 f 2 p2"
    using assms(2) by (simp add: numeral_2_eq_2)
  also have "\<dots> = ((case r of Returned \<Rightarrow> Success | Raises e \<Rightarrow> Failed), 2, p3)"
    using assms(3) by (cases r) simp_all
  finally show ?thesis .
qed

text \<open>No more retries are used than the task has.\<close>

lemma attempts_bound:
  "attempts n f used p = (st, used', q) \<Longrightarrow> used \<le> used' \<and> used' \<le> used + n"
proof (induction n arbitrary: used p)
  case 0
  then show ?case by (auto split: prod.splits outcome.splits)
next
  case (Suc n)
  obtain r p' where fp: "f p = (r, p')" by (cases "f p")
  show ?case
  proof (cases r)
    case Returned
    with Suc.prems fp show ?thesis by simp
  next
    case (Raises e)
    with Suc.prems fp have "attempts n f (Suc used) p' = (st, used', q)" by simp
    from Suc.IH [OF this] show ?thesis by simp
  qed
qed

subsection \<open>Runs of a workflow\<close>

lemma run_events_append:
  "run_events d s (xs @ ys) =
     (case run_events d s xs of None \<Rightarrow> None | Some s' \<Rightarrow> run_events d s' ys)"
  by (induction xs arbitrary: s) (auto split: option.splits)

lemma upstream_mem: "(u, v) \<in> set (edges d) \<Longrightarrow> u \<in> set (upstream d v)"
  by (force simp: upstream_def)

lemma started_ok_all_pending: "started_ok d all_pending"
  by (auto simp: started_ok_def all_pending_def)

lemma fire_keeps_started_ok:
  assumes "fire d s e = Some s'" and "started_ok d s"
  shows "started_ok d s'"
proof (cases e)
  case (Begin t)
  with assms(1) have pend: "s t = Pending"
    and ups: "list_all (\<lambda>u. s u = Success) (upstream d t)"
    and s': "s' = s(t := Running)"
    by (auto split: if_splits)
  show ?thesis
    unfolding started_ok_def
  proof clarify
    fix u v assume e: "(u, v) \<in> set (edges d)" and nv: "s' v \<noteq> Pending"
    have su: "s u = Success"
    proof (cases "v = t")
      case True
      with e ups show ?thesis by (auto simp: list_all_iff dest: upstream_mem)
    next
      case False
      with nv s' have "s v \<noteq> Pending" by simp
      with e assms(2) show ?thesis by (auto simp: started_ok_def)
    qed
    with pend have "u \<noteq> t" by auto
    with su s' show "s' u = Success" by simp
  qed
next
  case (Succeed t)
  with assms(1) have run: "s t = Running" and s': "s' = s(t := Success)"
    by (auto split: if_splits)
  show ?thesis
    unfolding started_ok_def
  proof clarify
    fix u v assume e: "(u, v) \<in> set (edges d)" and nv: "s' v \<noteq> Pending"
    have "s v \<noteq> Pending" using nv s' run by (cases "v = t") auto
    with e assms(2) have "s u = Success" by (auto simp: started_ok_def)
    with s' show "s' u = Success" by simp
  qed
next
  case (Fail t)
  with assms(1) have run: "s t = Running" and s': "s' = s(t := Failed)"
    by (auto split: if_splits)
  show ?thesis
    unfolding started_ok_def
  proof clarify
    fix u v assume e: "(u, v) \<in> set (edges d)" and nv: "s' v \<noteq> Pending"
    have "s v \<noteq> Pending" using nv s' run by (cases "v = t") auto
    with e assms(2) have su: "s u = Success" by (auto simp: started_ok_def)
    with run have "u \<noteq> t" by auto
    with su s' show "s' u = Success" by simp
  qed
qed

lemma run_events_keeps_started_ok:
  "run_events d s evs = Some s' \<Longrightarrow> started_ok d s \<Longrightarrow> started_ok d s'"
proof (induction evs arbitrary: s)
  case Nil
  then show ?case by simp
next
  case (Cons e es)
  from Cons.prems(1) obtain s1
    where f: "fire d s e = Some s1" and r: "run_events d s1 es = Some s'"
    by (auto split: option.splits)
  from fire_keeps_started_ok [OF f Cons.prems(2)] have "started_ok d s1" .
  with Cons.IH r show ?case by blast
qed

text \<open>A task that has succeeded stays so and never begins again.\<close>

lemma fire_success_stays:
  "fire d s e = Some s' \<Longrightarrow> s t = Success \<Longrightarrow> s' t = Success \<and> e \<noteq> Begin t"
  by (cases e) (auto split: if_splits)

lemma success_stays:
  "run_events d s evs = Some s' \<Longrightarrow> s t = Success \<Longrightarrow>
     s' t = Success \<and> Begin t \<notin> set evs"
proof (induction evs arbitrary: s)
  case Nil
  then show ?case by simp
next
  case (Cons e es)
  from Cons.prems(1) obtain s1
    where f: "fire d s e = Some s1" and r: "run_events d s1 es = Some s'"
    by (auto split: option.splits)
  from fire_success_stays [OF f Cons.prems(2)]
  have a: "s1 t = Success" and b: "e \<noteq> Begin t" by auto
  from Cons.IH [OF r a] b show ?case by auto
qed

text \<open>A task is in state \<open>Success\<close> only through its \<open>Succeed\<close> event.\<close>

lemma fire_success_from:
  "fire d s e = Some s' \<Longrightarrow> s' t = Success \<Longrightarrow> s t = Success \<or> e = Succeed t"
  by (cases e) (auto split: if_splits)

lemma success_has_event:
  "run_events d s evs = Some s' \<Longrightarrow> s' t = Success \<Longrightarrow> s t \<noteq> Success \<Longrightarrow>
     Succeed t \<in> set evs"
proof (induction evs arbitrary: s)
  case Nil
  then show ?case by simp
next
  case (Cons e es)
  from Cons.prems(1) obtain s1
    where f: "fire d s e = Some s1" and r: "run_events d s1 es = Some s'"
    by (auto split: option.splits)
  show ?case
  proof (cases "s1 t = Success")
    case True
    from fire_success_from [OF f True] Cons.prems(3) show ?thesis by auto
  next
    case False
    from Cons.IH [OF r Cons.prems(2) False] show ?thesis by simp
  qed
qed

section \<open>The claims\<close>

subsection \<open>Loading the stored file\<close>

text \<open>
  Claim C2.  Loading the stored file is a no-op.  Each of its 54 lines is blank or a
  comment, so no line reaches the parser; whatever meaning \<open>ex\<close> lines of code have and
  whatever the state \<open>st\<close> is, of any type, loading returns normally with the state as
  it was.  For a \<open>pystate\<close> this says that no name is bound, no workflow and no task is
  registered, and \<^verbatim>\<open>load_dotenv\<close> is not called.
\<close>

theorem stored_file_loads_nothing:
  "list_all is_ignored_line source_text
   \<and> logical_lines source_text = []
   \<and> load_module ex source_text st = Inr st"
  by (simp add: source_text_ignored source_text_no_code load_source_text)

subsection \<open>What a load registers\<close>

text \<open>
  Claim C1, as stated, fails on the stored file: loaded into a fresh process, the file
  leaves the process fresh, and the list of registered task identifiers is empty, not
  \<^verbatim>\<open>train_pipeline\<close>, \<^verbatim>\<open>sync_data_to_s3\<close>.
\<close>

theorem stored_file_registers_no_task:
  "load_module not_read source_text fresh = Inr fresh \<and> registered_task_ids fresh = []"
  by (simp add: load_source_text registered_task_ids_def fresh_def)

text \<open>
  Claim C1, amended.  The workflow that the descriptor text declares has exactly two
  tasks, \<^verbatim>\<open>train_pipeline\<close> and \<^verbatim>\<open>sync_data_to_s3\<close>, in this order, and
  evaluating the text where its top-level imports are found registers this workflow and
  with it these two tasks and no other.  Loading the stored file, where the text is
  commented out, registers no task.
\<close>

theorem descriptor_declares_two_tasks:
  "map task_id (tasks workflow) = [''train_pipeline'', ''sync_data_to_s3'']
   \<and> (list_all installed top_level_modules \<longrightarrow>
        (\<exists>st'. descriptor installed st = Inr st'
           \<and> dags st' = dags st @ [workflow]
           \<and> registered_task_ids st' =
               registered_task_ids st @ [''train_pipeline'', ''sync_data_to_s3'']))
   \<and> (\<exists>st'. load_module ex source_text st = Inr st'
           \<and> registered_task_ids st' = registered_task_ids st)"
  by (simp add: workflow_task_ids descriptor_ok load_source_text registered_task_ids_def)

theorem descriptor_declares_two_tasks_witness:
  "list_all (all_but training_module) top_level_modules
   \<and> (\<exists>st'. descriptor (all_but training_module) fresh = Inr st'
         \<and> dags st' = dags fresh @ [workflow]
         \<and> registered_task_ids st' =
             registered_task_ids fresh @ [''train_pipeline'', ''sync_data_to_s3''])"
proof -
  have h: "list_all (all_but training_module) top_level_modules"
    by (simp add: all_but_def training_module_def top_level_modules_def)
  with descriptor_declares_two_tasks [of "all_but training_module" fresh]
  show ?thesis by blast
qed

subsection \<open>The order of the two tasks\<close>

text \<open>
  Claim C3.  The declared workflow has one precedence edge, from \<^verbatim>\<open>train_pipeline\<close>
  to \<^verbatim>\<open>sync_data_to_s3\<close>, and no cycle.  In every valid execution,
  \<^verbatim>\<open>sync_data_to_s3\<close> begins only after \<^verbatim>\<open>train_pipeline\<close> has succeeded, and
  \<^verbatim>\<open>train_pipeline\<close> does not begin after it (no reversed schedule); at no point of
  a valid execution are both tasks running (no concurrent schedule).  The workflow is
  the one the descriptor text declares; the executions are those of the orchestrator's
  dependency rule.
\<close>

theorem sync_only_after_train:
  "edges workflow = [(''train_pipeline'', ''sync_data_to_s3'')]
   \<and> acyclic (set (edges workflow))
   \<and> (valid_execution workflow (pre @ Begin ''sync_data_to_s3'' # post) \<longrightarrow>
        Succeed ''train_pipeline'' \<in> set pre \<and> Begin ''train_pipeline'' \<notin> set post)
   \<and> (run_events workflow all_pending evs = Some s \<longrightarrow>
        \<not> (s ''train_pipeline'' = Running \<and> s ''sync_data_to_s3'' = Running))"
proof (intro conjI impI)
  show "edges workflow = [(''train_pipeline'', ''sync_data_to_s3'')]"
    by (rule workflow_edges)
  show "acyclic (set (edges workflow))"
    by (rule workflow_acyclic)
next
  assume v: "valid_execution workflow (pre @ Begin ''sync_data_to_s3'' # post)"
  then obtain s1 s2 s3 where
    p: "run_events workflow all_pending pre = Some s1" and
    f: "fire workflow s1 (Begin ''sync_data_to_s3'') = Some s2" and
    q: "run_events workflow s2 post = Some s3"
    by (auto simp: valid_execution_def run_events_append split: option.splits)
  from f have t1: "s1 ''train_pipeline'' = Success"
    by (auto simp: upstream_def workflow_edges split: if_splits)
  have "all_pending ''train_pipeline'' \<noteq> Success"
    by (simp add: all_pending_def)
  from success_has_event [OF p t1 this]
  show "Succeed ''train_pipeline'' \<in> set pre" .
  from f t1 have "s2 ''train_pipeline'' = Success"
    by (auto split: if_splits)
  from success_stays [OF q this]
  show "Begin ''train_pipeline'' \<notin> set post" by simp
next
  assume r: "run_events workflow all_pending evs = Some s"
  from run_events_keeps_started_ok [OF r started_ok_all_pending]
  have "started_ok workflow s" .
  then have "s ''sync_data_to_s3'' \<noteq> Pending \<longrightarrow> s ''train_pipeline'' = Success"
    by (simp add: started_ok_def workflow_edges)
  then show "\<not> (s ''train_pipeline'' = Running \<and> s ''sync_data_to_s3'' = Running)"
    by auto
qed

theorem sync_only_after_train_witness:
  "valid_execution workflow
     ([Begin ''train_pipeline'', Succeed ''train_pipeline'']
        @ Begin ''sync_data_to_s3'' # [Succeed ''sync_data_to_s3''])
   \<and> Succeed ''train_pipeline'' \<in> set [Begin ''train_pipeline'', Succeed ''train_pipeline'']
   \<and> Begin ''train_pipeline'' \<notin> set [Succeed ''sync_data_to_s3'']
   \<and> run_events workflow all_pending [Begin ''train_pipeline'']
       = Some (all_pending(''train_pipeline'' := Running))
   \<and> \<not> ((all_pending(''train_pipeline'' := Running)) ''train_pipeline'' = Running
          \<and> (all_pending(''train_pipeline'' := Running)) ''sync_data_to_s3'' = Running)"
  using sync_only_after_train
    [of "[Begin ''train_pipeline'', Succeed ''train_pipeline'']"
        "[Succeed ''sync_data_to_s3'']"
        "[Begin ''train_pipeline'']" "all_pending(''train_pipeline'' := Running)"]
  by (simp add: valid_execution_def workflow_value upstream_def all_pending_def)

subsection \<open>Retries\<close>

text \<open>
  Claim C4.  Each task of the declared workflow has a retry count of 2.  When the
  training function raises at its first and at its second call and returns at its
  third, the run of task \<^verbatim>\<open>train_pipeline\<close> ends in success after exactly 2 retries,
  with the process as the third call left it.
\<close>

theorem two_failures_then_success:
  assumes "find (\<lambda>t. task_id t = ''train_pipeline'') (tasks workflow) = Some t"
    and "training (modules E) (pipeline_new E) (pipeline_run E) p0 = (Raises e1, p1)"
    and "training (modules E) (pipeline_new E) (pipeline_run E) p1 = (Raises e2, p2)"
    and "training (modules E) (pipeline_new E) (pipeline_run E) p2 = (Returned, p3)"
  shows "list_all (\<lambda>t. retries t = 2) (tasks workflow)
    \<and> run_task E t p0 = (Success, 2, p3)"
proof
  show "list_all (\<lambda>t. retries t = 2) (tasks workflow)"
    by (simp add: workflow_value)
  from find_train_task [OF assms(1)]
  have t: "retries t = 2"
    "call E (python_callable t) = training (modules E) (pipeline_new E) (pipeline_run E)"
    by (simp_all add: call_def)
  from attempts_two_raises [of "call E (python_callable t)" p0 e1 p1 e2 p2 Returned p3]
    assms(2-4) t
  show "run_task E t p0 = (Success, 2, p3)"
    by (simp add: run_task_def)
qed

theorem two_failures_then_success_witness:
  "find (\<lambda>t. task_id t = ''train_pipeline'') (tasks workflow)
     = Some \<lparr>task_id = ''train_pipeline'', python_callable = Fn_training, retries = 2\<rparr>
   \<and> training (modules flaky_env) (pipeline_new flaky_env) (pipeline_run flaky_env)
        start_proc
     = (Raises (Exception ''training failed''), \<lparr>world = 1, issued = []\<rparr>)
   \<and> training (modules flaky_env) (pipeline_new flaky_env) (pipeline_run flaky_env)
        \<lparr>world = 1, issued = []\<rparr>
     = (Raises (Exception ''training failed''), \<lparr>world = 2, issued = []\<rparr>)
   \<and> training (modules flaky_env) (pipeline_new flaky_env) (pipeline_run flaky_env)
        \<lparr>world = 2, issued = []\<rparr>
     = (Returned, \<lparr>world = 3, issued = []\<rparr>)
   \<and> run_task flaky_env
        \<lparr>task_id = ''train_pipeline'', python_callable = Fn_training, retries = 2\<rparr>
        start_proc
     = (Success, 2, \<lparr>world = 3, issued = []\<rparr>)"
proof -
  have a: "find (\<lambda>t. task_id t = ''train_pipeline'') (tasks workflow)
     = Some \<lparr>task_id = ''train_pipeline'', python_callable = Fn_training, retries = 2\<rparr>"
    by (simp add: workflow_value)
  have b: "training (modules flaky_env) (pipeline_new flaky_env) (pipeline_run flaky_env)
        start_proc
     = (Raises (Exception ''training failed''), \<lparr>world = 1, issued = []\<rparr>)"
    by (simp add: training_def flaky_env_def all_but_def training_module_def
        trivial_new_def flaky_run_def start_proc_def)
  have c: "training (modules flaky_env) (pipeline_new flaky_env) (pipeline_run flaky_env)
        \<lparr>world = 1, issued = []\<rparr>
     = (Raises (Exception ''training failed''), \<lparr>world = 2, issued = []\<rparr>)"
    by (simp add: training_def flaky_env_def all_but_def training_module_def
        trivial_new_def flaky_run_def)
  have d: "training (modules flaky_env) (pipeline_new flaky_env) (pipeline_run flaky_env)
        \<lparr>world = 2, issued = []\<rparr>
     = (Returned, \<lparr>world = 3, issued = []\<rparr>)"
    by (simp add: training_def flaky_env_def all_but_def training_module_def
        trivial_new_def flaky_run_def)
  from two_failures_then_success [OF a b c d] a b c d show ?thesis by simp
qed

subsection \<open>The sync function\<close>

text \<open>
  Claim C5.  The sync function neither checks nor passes on the exit status of its two
  commands: for every shell, so for every exit status of either command, the call
  returns normally, and the run of task \<^verbatim>\<open>sync_data_to_s3\<close> ends in success at the
  first call, with no retry.
\<close>

theorem sync_returns_whatever_the_status:
  assumes "find (\<lambda>t. task_id t = ''sync_data_to_s3'') (tasks workflow) = Some t"
  shows "fst (sync_artifact_to_s3_bucket sh p) = Returned
    \<and> run_task E t p = (Success, 0, snd (sync_artifact_to_s3_bucket (shell E) p))"
proof
  show "fst (sync_artifact_to_s3_bucket sh p) = Returned"
    by (simp add: sync_result)
  from find_sync_task [OF assms]
  have t: "call E (python_callable t) = sync_artifact_to_s3_bucket (shell E)"
    by (simp add: call_def)
  have "sync_artifact_to_s3_bucket (shell E) p
      = (Returned, snd (sync_artifact_to_s3_bucket (shell E) p))"
    by (simp add: sync_result)
  with t show "run_task E t p = (Success, 0, snd (sync_artifact_to_s3_bucket (shell E) p))"
    by (simp add: run_task_def attempts_returns)
qed

text \<open>The witness runs the task with a shell whose every command ends with status 1.\<close>

theorem sync_returns_whatever_the_status_witness:
  "find (\<lambda>t. task_id t = ''sync_data_to_s3'') (tasks workflow)
     = Some \<lparr>task_id = ''sync_data_to_s3'',
             python_callable = Fn_sync_artifact_to_s3_bucket, retries = 2\<rparr>
   \<and> fst (failing_shell ''aws s3 sync /app/Artifacts s3://networksecurity3/artifact'' 0) = 1
   \<and> fst (failing_shell ''aws s3 sync /app/final_model s3://networksecurity3/final_model'' 1) = 1
   \<and> fst (sync_artifact_to_s3_bucket failing_shell start_proc) = Returned
   \<and> run_task flaky_env
        \<lparr>task_id = ''sync_data_to_s3'',
         python_callable = Fn_sync_artifact_to_s3_bucket, retries = 2\<rparr>
        start_proc
     = (Success, 0,
        \<lparr>world = 2,
         issued = [''aws s3 sync /app/Artifacts s3://networksecurity3/artifact'',
                   ''aws s3 sync /app/final_model s3://networksecurity3/final_model'']\<rparr>)"
proof -
  have a: "find (\<lambda>t. task_id t = ''sync_data_to_s3'') (tasks workflow)
     = Some \<lparr>task_id = ''sync_data_to_s3'',
             python_callable = Fn_sync_artifact_to_s3_bucket, retries = 2\<rparr>"
    by (simp add: workflow_value)
  from sync_returns_whatever_the_status [OF a, of failing_shell start_proc flaky_env] a
  show ?thesis
    by (simp add: sync_result flaky_env_def failing_shell_def start_proc_def)
qed


text \<open>
  Claim C10.  The two commands run in a fixed order, and the second runs whatever the
  first did: whichever exit status \<open>status1\<close> the artifacts sync ends with, the model
  sync is run next, on the process as the first command left it, and the call returns
  with the process as the second command left it.
\<close>

theorem sync_second_runs_after_first:
  assumes "os_system sh ''aws s3 sync /app/Artifacts s3://networksecurity3/artifact'' p
             = (status1, p1)"
    and "os_system sh ''aws s3 sync /app/final_model s3://networksecurity3/final_model'' p1
             = (status2, p2)"
  shows "sync_artifact_to_s3_bucket sh p = (Returned, p2)
    \<and> issued p2 = issued p @
         [''aws s3 sync /app/Artifacts s3://networksecurity3/artifact'',
          ''aws s3 sync /app/final_model s3://networksecurity3/final_model'']"
  using assms
  by (auto simp: sync_artifact_to_s3_bucket_def os_system_def Let_def split_beta)

theorem sync_second_runs_after_first_witness:
  "os_system failing_shell ''aws s3 sync /app/Artifacts s3://networksecurity3/artifact''
       start_proc
     = (1, \<lparr>world = 1,
            issued = [''aws s3 sync /app/Artifacts s3://networksecurity3/artifact'']\<rparr>)
   \<and> os_system failing_shell
        ''aws s3 sync /app/final_model s3://networksecurity3/final_model''
        \<lparr>world = 1,
         issued = [''aws s3 sync /app/Artifacts s3://networksecurity3/artifact'']\<rparr>
     = (1, \<lparr>world = 2,
            issued = [''aws s3 sync /app/Artifacts s3://networksecurity3/artifact'',
                      ''aws s3 sync /app/final_model s3://networksecurity3/final_model'']\<rparr>)
   \<and> sync_artifact_to_s3_bucket failing_shell start_proc
     = (Returned,
        \<lparr>world = 2,
         issued = [''aws s3 sync /app/Artifacts s3://networksecurity3/artifact'',
                   ''aws s3 sync /app/final_model s3://networksecurity3/final_model'']\<rparr>)"
proof -
  have a: "os_system failing_shell
        ''aws s3 sync /app/Artifacts s3://networksecurity3/artifact'' start_proc
     = (1, \<lparr>world = 1,
            issued = [''aws s3 sync /app/Artifacts s3://networksecurity3/artifact'']\<rparr>)"
    by (simp add: os_system_def failing_shell_def start_proc_def)
  have b: "os_system failing_shell
        ''aws s3 sync /app/final_model s3://networksecurity3/final_model''
        \<lparr>world = 1,
         issued = [''aws s3 sync /app/Artifacts s3://networksecurity3/artifact'']\<rparr>
     = (1, \<lparr>world = 2,
            issued = [''aws s3 sync /app/Artifacts s3://networksecurity3/artifact'',
                      ''aws s3 sync /app/final_model s3://networksecurity3/final_model'']\<rparr>)"
    by (simp add: os_system_def failing_shell_def)
  from sync_second_runs_after_first [OF a b] a b show ?thesis by simp
qed

subsection \<open>Environment variables\<close>




subsection \<open>A missing training-pipeline module\<close>

text \<open>
  Claim C9, as stated, fails.  With every module found except the training-pipeline
  module, loading the stored file does not fail, and evaluating the descriptor text does
  not fail either: it registers the workflow with its two tasks.
\<close>

theorem missing_training_module_still_loads:
  "load_module not_read source_text fresh = Inr fresh
   \<and> \<not> isl (descriptor (all_but training_module) fresh)
   \<and> map dag_id (dags (projr (descriptor (all_but training_module) fresh)))
       = [''network_training_pipelinr'']
   \<and> registered_task_ids (projr (descriptor (all_but training_module) fresh))
       = [''train_pipeline'', ''sync_data_to_s3'']"
proof -
  have h: "list_all (all_but training_module) top_level_modules"
    by (simp add: all_but_def training_module_def top_level_modules_def)
  show ?thesis
    by (simp add: load_source_text descriptor_ok [OF h] fresh_def workflow_value
        registered_task_ids_def)
qed

text \<open>
  Claim C9, amended.  A missing training-pipeline module does not fail the evaluation of
  the descriptor: in the descriptor text its import stands inside the training function,
  so the workflow is registered all the same, and the failure surfaces when the training
  task runs: every call of the training function raises \<^verbatim>\<open>ModuleNotFoundError\<close> and
  leaves the process as it was, and the task fails after its 2 retries.
\<close>

theorem missing_training_module_fails_the_task:
  assumes "list_all installed top_level_modules" and "\<not> installed training_module"
    and "find (\<lambda>t. task_id t = ''train_pipeline'') (tasks workflow) = Some t"
    and "modules E = installed"
  shows "(\<exists>st'. descriptor installed st = Inr st' \<and> dags st' = dags st @ [workflow])
    \<and> training installed new run p = (Raises (ModuleNotFoundError training_module), p)
    \<and> run_task E t q = (Failed, 2, q)"
proof (intro conjI)
  show "\<exists>st'. descriptor installed st = Inr st' \<and> dags st' = dags st @ [workflow]"
    by (simp add: descriptor_ok [OF assms(1)])
  show "training installed new run p = (Raises (ModuleNotFoundError training_module), p)"
    using assms(2) by (simp add: training_def)
  from find_train_task [OF assms(3)]
  have t: "retries t = 2"
    "call E (python_callable t) = training installed (pipeline_new E) (pipeline_run E)"
    by (simp_all add: call_def assms(4))
  have c: "call E (python_callable t) q = (Raises (ModuleNotFoundError training_module), q)"
    using assms(2) by (simp add: t training_def)
  from attempts_two_raises [of "call E (python_callable t)" q _ q _ q _ q, OF c c c] t
  show "run_task E t q = (Failed, 2, q)"
    by (simp add: run_task_def)
qed

theorem missing_training_module_fails_the_task_witness:
  "list_all (all_but training_module) top_level_modules
   \<and> \<not> all_but training_module training_module
   \<and> find (\<lambda>t. task_id t = ''train_pipeline'') (tasks workflow)
       = Some \<lparr>task_id = ''train_pipeline'', python_callable = Fn_training, retries = 2\<rparr>
   \<and> modules bare_env = all_but training_module
   \<and> (\<exists>st'. descriptor (all_but training_module) fresh = Inr st'
         \<and> dags st' = dags fresh @ [workflow])
   \<and> training (all_but training_module) trivial_new flaky_run start_proc
       = (Raises (ModuleNotFoundError training_module), start_proc)
   \<and> run_task bare_env
        \<lparr>task_id = ''train_pipeline'', python_callable = Fn_training, retries = 2\<rparr>
        start_proc
       = (Failed, 2, start_proc)"
proof -
  have a: "list_all (all_but training_module) top_level_modules"
    by (simp add: all_but_def training_module_def top_level_modules_def)
  have b: "\<not> all_but training_module training_module"
    by (simp add: all_but_def)
  have c: "find (\<lambda>t. task_id t = ''train_pipeline'') (tasks workflow)
       = Some \<lparr>task_id = ''train_pipeline'', python_callable = Fn_training, retries = 2\<rparr>"
    by (simp add: workflow_value)
  have d: "modules bare_env = all_but training_module"
    by (simp add: bare_env_def)
  from missing_training_module_fails_the_task
    [OF a b c d, of fresh trivial_new flaky_run start_proc start_proc] a b c d
  show ?thesis by simp
qed

end
